theory Spec2Isabelle
  imports Main "HOL-Library.List_Lexorder" "HOL-Library.Char_ord"
begin

section \<open>JavaScript values and library functions used by the interpreter\<close>

text \<open>
  The interpreter (\<^verbatim>\<open>src/js/eval.js\<close>, second document) is JavaScript.  A reference that
  may be \<^verbatim>\<open>undefined\<close> or \<^verbatim>\<open>null\<close> is a value of \<open>'a jsv\<close>; a thrown exception is a value
  of \<open>error\<close>.  \<open>OutOfFuel\<close> stands for an evaluation that does not return (unbounded
  recursion), \<open>NotModelled\<close> for JavaScript behaviour outside this embedding (numbers that
  are not integers, a \<^verbatim>\<open>BoolValue\<close> holding a non-boolean, holes in a tuple).
\<close>

datatype 'a jsv = JUndef | JNull | JVal 'a

datatype error = TypeError | AssertionFailed | Thrown string | OutOfFuel | NotModelled

text \<open>
  \<^verbatim>\<open>hashSum\<close> is the external hash-sum library; the interpreter is parametrised by it.  It
  is applied to a number, a boolean, or an array of strings (an array cell can be
  \<^verbatim>\<open>undefined\<close> after \<^verbatim>\<open>_.zip\<close> of arrays of different lengths).
\<close>

datatype hashable = HNum int | HBool bool | HArr "string option list"

type_synonym hashfn = "hashable \<Rightarrow> string"

text \<open>\<^verbatim>\<open>Number.prototype.toString\<close> on an integer.\<close>

fun dec :: "nat \<Rightarrow> string" where
  "dec n = (if n < 10 then [''0123456789'' ! n]
            else dec (n div 10) @ [''0123456789'' ! (n mod 10)])"

declare dec.simps [simp del]

definition num_toString :: "int \<Rightarrow> string" where
  "num_toString i = (if i < 0 then CHR ''-'' # dec (nat (- i)) else dec (nat i))"

text \<open>\<^verbatim>\<open>parseInt\<close> on the text of a \<^verbatim>\<open>nat_number\<close> token (decimal digits).\<close>

definition digit_val :: "char \<Rightarrow> int" where
  "digit_val c = int (of_char c) - 48"

definition parseInt :: "string \<Rightarrow> int" where
  "parseInt s = foldl (\<lambda>a c. 10 * a + digit_val c) 0 s"

text \<open>\<^verbatim>\<open>Array.prototype.join\<close>.\<close>

fun join :: "string \<Rightarrow> string list \<Rightarrow> string" where
  "join sep [] = []"
| "join sep [x] = x"
| "join sep (x # y # ys) = x @ sep @ join sep (y # ys)"

text \<open>
  lodash 4 library functions, from their documented behaviour: \<^verbatim>\<open>_.range(start, end)\<close>
  steps by \<open>1\<close> when \<open>start < end\<close> and by \<open>-1\<close> otherwise, and never includes \<open>end\<close>;
  \<^verbatim>\<open>_.uniqBy\<close> and \<^verbatim>\<open>_.uniqWith\<close> keep the first occurrence; \<^verbatim>\<open>_.intersectionWith\<close> keeps
  the unique values of the first array that occur in the second; \<^verbatim>\<open>_.differenceWith\<close>
  keeps the values of the first array that do not occur in the second; \<^verbatim>\<open>_.zip\<close> pads
  the shorter array with \<^verbatim>\<open>undefined\<close>; \<^verbatim>\<open>_.sortBy\<close> is a stable sort.
\<close>

definition lodash_range :: "int \<Rightarrow> int \<Rightarrow> int list" where
  "lodash_range start end = (if start < end then [start..end - 1] else rev [end + 1..start])"

primrec uniqBy_seen :: "('a \<Rightarrow> 'k) \<Rightarrow> 'k list \<Rightarrow> 'a list \<Rightarrow> 'a list" where
  "uniqBy_seen f seen [] = []"
| "uniqBy_seen f seen (x # xs) =
     (if f x \<in> set seen then uniqBy_seen f seen xs else x # uniqBy_seen f (f x # seen) xs)"

definition uniqBy :: "('a \<Rightarrow> 'k) \<Rightarrow> 'a list \<Rightarrow> 'a list" where
  "uniqBy f xs = uniqBy_seen f [] xs"

definition uniqWith_isEqual :: "'a list \<Rightarrow> 'a list" where
  "uniqWith_isEqual xs = uniqBy (\<lambda>x. x) xs"

definition intersectionWith_isEqual :: "'a list \<Rightarrow> 'a list \<Rightarrow> 'a list" where
  "intersectionWith_isEqual xs ys = uniqWith_isEqual (filter (\<lambda>x. x \<in> set ys) xs)"

definition differenceWith_isEqual :: "'a list \<Rightarrow> 'a list \<Rightarrow> 'a list" where
  "differenceWith_isEqual xs ys = filter (\<lambda>x. x \<notin> set ys) xs"

fun lodash_zip :: "'a list \<Rightarrow> 'b list \<Rightarrow> ('a option \<times> 'b option) list" where
  "lodash_zip [] [] = []"
| "lodash_zip (x # xs) [] = (Some x, None) # lodash_zip xs []"
| "lodash_zip [] (y # ys) = (None, Some y) # lodash_zip [] ys"
| "lodash_zip (x # xs) (y # ys) = (Some x, Some y) # lodash_zip xs ys"

text \<open>\<^verbatim>\<open>cartesianProductOf(a, b)\<close>: all two-element arrays, the first array varying slowest.\<close>

definition cartesianProductOf2 :: "'a list \<Rightarrow> 'a list \<Rightarrow> 'a list list" where
  "cartesianProductOf2 a b = concat (map (\<lambda>x. map (\<lambda>y. [x, y]) b) a)"

section \<open>TLA+ values\<close>

text \<open>
  The classes \<^verbatim>\<open>IntValue\<close>, \<^verbatim>\<open>BoolValue\<close>, \<^verbatim>\<open>StringValue\<close>, \<^verbatim>\<open>SetValue\<close>, \<^verbatim>\<open>TupleValue\<close> and
  \<^verbatim>\<open>FcnRcdValue\<close> (domain, values, isRecord).  \<^verbatim>\<open>_.isEqual\<close> on two values is equality of
  the datatype.
\<close>

datatype tlaval =
    IntValue int
  | BoolValue bool
  | StringValue string
  | SetValue "tlaval list"
  | TupleValue "tlaval list"
  | FcnRcdValue "tlaval list" "tlaval list" bool

text \<open>What \<^verbatim>\<open>getVal()\<close> returns: a JavaScript number, boolean or string.\<close>

datatype jsprim = PNum int | PBool bool | PStr string

definition getVal :: "tlaval \<Rightarrow> error + jsprim" where
  "getVal v = (case v of IntValue n \<Rightarrow> Inr (PNum n) | BoolValue b \<Rightarrow> Inr (PBool b)
     | StringValue s \<Rightarrow> Inr (PStr s) | _ \<Rightarrow> Inl TypeError)"

text \<open>JavaScript truthiness of a primitive.\<close>

definition truthy :: "jsprim \<Rightarrow> bool" where
  "truthy p = (case p of PNum n \<Rightarrow> n \<noteq> 0 | PBool b \<Rightarrow> b | PStr s \<Rightarrow> s \<noteq> [])"

text \<open>String conversion of a primitive (\<^verbatim>\<open>dv.getVal() + " |-> "\<close>).\<close>

definition prim_toString :: "jsprim \<Rightarrow> string" where
  "prim_toString p = (case p of PNum n \<Rightarrow> num_toString n
     | PBool b \<Rightarrow> (if b then ''true'' else ''false'') | PStr s \<Rightarrow> s)"

text \<open>
  \<^verbatim>\<open>toString()\<close> of each class; \<open>None\<close> when the call throws (a record whose domain holds
  a value without \<^verbatim>\<open>getVal\<close>).  A function prints one entry for each element of its domain;
  a missing \<^verbatim>\<open>values[idx]\<close> prints as \<^verbatim>\<open>undefined\<close>.
\<close>

definition nth_or_undefined :: "string list \<Rightarrow> nat \<Rightarrow> string" where
  "nth_or_undefined xs i = (if i < length xs then xs ! i else ''undefined'')"

fun toString :: "tlaval \<Rightarrow> string option" where
  "toString (IntValue n) = Some (num_toString n)"
| "toString (BoolValue b) = Some (if b then ''TRUE'' else ''FALSE'')"
| "toString (StringValue s) = Some (''\"'' @ s @ ''\"'')"
| "toString (SetValue es) =
     (let ss = map toString es in
      if None \<in> set ss then None else Some (''{'' @ join '','' (map the ss) @ ''}''))"
| "toString (TupleValue es) =
     (let ss = map toString es in
      if None \<in> set ss then None else Some (''<<'' @ join '','' (map the ss) @ ''>>''))"
| "toString (FcnRcdValue dm vals isRecord) =
     (let vs = take (length dm) (map toString vals) in
      if None \<in> set vs then None
      else if isRecord then
        (let ds = map getVal dm in
         if list_ex isl ds then None
         else Some (''['' @ join '', '' (map (\<lambda>(d, i). prim_toString (projr d) @ '' |-> ''
                       @ nth_or_undefined (map the vs) i) (zip ds [0..<length ds])) @ '']''))
      else
        (let ds = map toString dm in
         if None \<in> set ds then None
         else Some (''('' @ join '' @@ '' (map (\<lambda>(d, i). the d @ '' :> ''
                       @ nth_or_undefined (map the vs) i) (zip ds [0..<length ds])) @ '')'')))"

text \<open>
  \<^verbatim>\<open>fingerprint()\<close> of each class.  A string is its own fingerprint; a set hashes the sorted
  fingerprints of its elements; a function hashes the sorted hashes of its
  (domain fingerprint, value fingerprint) pairs; a tuple is fingerprinted as the function
  \<^verbatim>\<open>toFcnRcd()\<close> builds, with domain \<open>1..n\<close>.  \<^verbatim>\<open>Array.prototype.sort\<close> on strings is the
  lexicographic order on character codes.
\<close>

definition fcn_fingerprint :: "hashfn \<Rightarrow> string list \<Rightarrow> string list \<Rightarrow> string" where
  "fcn_fingerprint hs domFps valsFp =
     hs (HArr (map Some (sort (map (\<lambda>(d, v). hs (HArr [d, v])) (lodash_zip domFps valsFp)))))"

fun fingerprint :: "hashfn \<Rightarrow> tlaval \<Rightarrow> string" where
  "fingerprint hs (IntValue n) = hs (HNum n)"
| "fingerprint hs (BoolValue b) = hs (HBool b)"
| "fingerprint hs (StringValue s) = s"
| "fingerprint hs (SetValue es) = hs (HArr (map Some (sort (map (fingerprint hs) es))))"
| "fingerprint hs (TupleValue es) =
     fcn_fingerprint hs (map (\<lambda>i. hs (HNum i)) (lodash_range 1 (int (length es) + 1)))
       (map (fingerprint hs) es)"
| "fingerprint hs (FcnRcdValue dm vals isRecord) =
     fcn_fingerprint hs (map (fingerprint hs) dm) (map (fingerprint hs) vals)"

text \<open>The \<^verbatim>\<open>SetValue\<close> constructor removes duplicates by fingerprint.\<close>

definition mkSet :: "hashfn \<Rightarrow> tlaval list \<Rightarrow> tlaval" where
  "mkSet hs elems = SetValue (uniqBy (fingerprint hs) elems)"

text \<open>\<^verbatim>\<open>TupleValue.toFcnRcd\<close>: the function with domain \<open>1..n\<close>.\<close>

definition toFcnRcd :: "tlaval list \<Rightarrow> tlaval" where
  "toFcnRcd elems =
     FcnRcdValue (map IntValue (lodash_range 1 (int (length elems) + 1))) elems False"

text \<open>
  \<^verbatim>\<open>toTuple\<close>.  On a tuple it returns the tuple.  On a function it checks that the domain
  is \<open>{1..n}\<close>, fills the object \<^verbatim>\<open>valsRevIndex\<close>, whose keys are the strings of the values
  (a later value with the same string overwrites the earlier entry), and sorts the values
  with \<^verbatim>\<open>_.sortBy(vals, v => valsRevIndex[v])\<close>.  The sort keys are \<^verbatim>\<open>IntValue\<close> objects;
  lodash compares them with \<^verbatim>\<open><\<close> and \<^verbatim>\<open>>\<close>, which on two objects compares their
  \<^verbatim>\<open>toString()\<close> strings.  A function whose two arrays differ in length is outside the
  model.
\<close>

definition isIntValue :: "tlaval \<Rightarrow> bool" where
  "isIntValue v = (case v of IntValue n \<Rightarrow> True | _ \<Rightarrow> False)"

definition intOf :: "tlaval \<Rightarrow> int" where
  "intOf v = (case v of IntValue n \<Rightarrow> n | _ \<Rightarrow> 0)"

definition valsRevIndex :: "string list \<Rightarrow> tlaval list \<Rightarrow> string \<Rightarrow> tlaval option" where
  "valsRevIndex keys dm = map_of (rev (zip keys dm))"

definition toTuple :: "tlaval \<Rightarrow> error + tlaval" where
  "toTuple v = (case v of
       TupleValue es \<Rightarrow> Inr (TupleValue es)
     | FcnRcdValue dm vals isRecord \<Rightarrow>
         if \<not> list_all isIntValue dm then Inl (Thrown ''cannot convert record to tuple'')
         else if lodash_range 1 (int (length dm) + 1) \<noteq> sort (map intOf dm)
           then Inl (Thrown ''cannot convert record to tuple'')
         else if length vals \<noteq> length dm then Inl NotModelled
         else if None \<in> set (map toString vals) then Inl TypeError
         else
           (let keys = map (\<lambda>x. the (toString x)) vals;
                sortedVals = sort_key (\<lambda>x. case valsRevIndex keys dm (the (toString x)) of
                                 Some d \<Rightarrow> num_toString (intOf d) | None \<Rightarrow> []) vals
            in Inr (TupleValue sortedVals))
     | _ \<Rightarrow> Inl (Thrown ''value cannot be converted to tuple''))"

section \<open>Syntax trees\<close>

text \<open>
  The tree-sitter syntax nodes the evaluator dispatches on, by node type, with the
  children the evaluator reads.  A \<^verbatim>\<open>nat_number\<close>, \<^verbatim>\<open>boolean\<close> or \<^verbatim>\<open>string\<close> node carries its
  source text; \<^verbatim>\<open>in\<close> and \<^verbatim>\<open>notin\<close> are rewritten away before evaluation and the evaluator
  asserts that they do not occur.
\<close>

datatype infix_symbol =
    Mul | Plus | Minus | Gt | Lt | Geq | Leq | Lor | Land | Implies | Eq | Neq
  | In | Notin | Cap | Cup | Setminus | Times | Dots2

datatype prefix_symbol = Enabled | Domain | Lnot | Unchanged

datatype quantifier = Exists | Forall

datatype node =
    Parentheses node
  | NatNumber string
  | Boolean string
  | StringLit string
  | BooleanSet
  | IdentifierRef string
  | BoundPostfixPrime node
  | BoundInfixOp node infix_symbol node
  | BoundPrefixOp prefix_symbol node
  | ConjList "node list"
  | ConjItem node
  | DisjList "node list"
  | DisjItem node
  | BoundedQuantification quantifier string node node
  | Choose string node node
  | IfThenElse node node node
  | TupleLiteral "node list"
  | FiniteSetLiteral "node list"

text \<open>
  \<^verbatim>\<open>node.text\<close>, the source text of a node, in one fixed spelling.  The evaluator uses it
  as a key into the state, whose keys are variable names and primed variable names.
\<close>

definition bs :: string where
  "bs = [CHR 0x5C]"

definition infix_text :: "infix_symbol \<Rightarrow> string" where
  "infix_text s = (case s of Mul \<Rightarrow> ''*'' | Plus \<Rightarrow> ''+'' | Minus \<Rightarrow> ''-'' | Gt \<Rightarrow> ''>''
     | Lt \<Rightarrow> ''<'' | Geq \<Rightarrow> ''>='' | Leq \<Rightarrow> ''<='' | Lor \<Rightarrow> bs @ ''/'' | Land \<Rightarrow> ''/'' @ bs
     | Implies \<Rightarrow> ''=>'' | Eq \<Rightarrow> ''='' | Neq \<Rightarrow> ''#'' | In \<Rightarrow> bs @ ''in''
     | Notin \<Rightarrow> bs @ ''notin'' | Cap \<Rightarrow> bs @ ''cap'' | Cup \<Rightarrow> bs @ ''cup''
     | Setminus \<Rightarrow> bs | Times \<Rightarrow> bs @ ''X'' | Dots2 \<Rightarrow> ''..'')"

definition prefix_text :: "prefix_symbol \<Rightarrow> string" where
  "prefix_text s = (case s of Enabled \<Rightarrow> ''ENABLED'' | Domain \<Rightarrow> ''DOMAIN'' | Lnot \<Rightarrow> ''~''
     | Unchanged \<Rightarrow> ''UNCHANGED'')"

fun node_text :: "node \<Rightarrow> string" where
  "node_text (Parentheses e) = ''('' @ node_text e @ '')''"
| "node_text (NatNumber t) = t"
| "node_text (Boolean t) = t"
| "node_text (StringLit t) = t"
| "node_text BooleanSet = ''BOOLEAN''"
| "node_text (IdentifierRef x) = x"
| "node_text (BoundPostfixPrime e) = node_text e @ [CHR 0x27]"
| "node_text (BoundInfixOp l s r) = node_text l @ '' '' @ infix_text s @ '' '' @ node_text r"
| "node_text (BoundPrefixOp s r) = prefix_text s @ '' '' @ node_text r"
| "node_text (ConjList es) = join '' '' (map node_text es)"
| "node_text (ConjItem e) = ''/'' @ bs @ '' '' @ node_text e"
| "node_text (DisjList es) = join '' '' (map node_text es)"
| "node_text (DisjItem e) = bs @ ''/ '' @ node_text e"
| "node_text (BoundedQuantification q x d e) =
     bs @ (case q of Exists \<Rightarrow> ''E '' | Forall \<Rightarrow> ''A '') @ x @ '' '' @ bs @ ''in ''
       @ node_text d @ '' : '' @ node_text e"
| "node_text (Choose x d e) =
     ''CHOOSE '' @ x @ '' '' @ bs @ ''in '' @ node_text d @ '' : '' @ node_text e"
| "node_text (IfThenElse c a b) =
     ''IF '' @ node_text c @ '' THEN '' @ node_text a @ '' ELSE '' @ node_text b"
| "node_text (TupleLiteral es) = ''<<'' @ join '', '' (map node_text es) @ ''>>''"
| "node_text (FiniteSetLiteral es) = ''{'' @ join '', '' (map node_text es) @ ''}''"

section \<open>States\<close>

text \<open>
  \<^verbatim>\<open>TLAState\<close>: the object \<^verbatim>\<open>stateVars\<close>, from variable names to a value or \<^verbatim>\<open>null\<close>
  (unassigned), as the list of its properties in insertion order.  The keys of a
  JavaScript object are distinct.
\<close>

type_synonym tlastate = "(string \<times> tlaval jsv) list"

definition hasVar :: "tlastate \<Rightarrow> string \<Rightarrow> bool" where
  "hasVar s varname = (map_of s varname \<noteq> None)"

definition getVarVal :: "tlastate \<Rightarrow> string \<Rightarrow> tlaval jsv" where
  "getVarVal s varname = (case map_of s varname of None \<Rightarrow> JUndef | Some v \<Rightarrow> v)"

definition withVarVal :: "tlastate \<Rightarrow> string \<Rightarrow> tlaval jsv \<Rightarrow> tlastate" where
  "withVarVal s varName newVal = map (\<lambda>(k, v). (k, if k = varName then newVal else v)) s"

definition endsWithPrime :: "string \<Rightarrow> bool" where
  "endsWithPrime k = (k \<noteq> [] \<and> last k = CHR 0x27)"

definition deprimeVars :: "tlastate \<Rightarrow> tlastate" where
  "deprimeVars s = map (\<lambda>(k, v). (butlast k, v)) (filter (\<lambda>(k, v). endsWithPrime k) s)"

text \<open>\<^verbatim>\<open>_.keys(stateVars).filter(k => stateVars[k] !== null)\<close>.\<close>

definition assignedVars :: "tlastate \<Rightarrow> string list" where
  "assignedVars s = map fst (filter (\<lambda>(k, v). v \<noteq> JNull) s)"

text \<open>Setting a property of an object: an existing key keeps its place.\<close>

definition obj_set :: "string \<Rightarrow> 'v \<Rightarrow> (string \<times> 'v) list \<Rightarrow> (string \<times> 'v) list" where
  "obj_set k v kvs = (if map_of kvs k = None then kvs @ [(k, v)]
     else map (\<lambda>(k', v'). (k', if k' = k then v else v')) kvs)"

definition isVal :: "'a jsv \<Rightarrow> bool" where
  "isVal j = (case j of JVal v \<Rightarrow> True | _ \<Rightarrow> False)"

definition theVal :: "tlaval jsv \<Rightarrow> tlaval" where
  "theVal j = (case j of JVal v \<Rightarrow> v | _ \<Rightarrow> BoolValue False)"

text \<open>
  \<^verbatim>\<open>TLAState.fingerprint\<close>: the hash of the array of each variable name, in sorted order,
  followed by the fingerprint of its value; a \<^verbatim>\<open>TypeError\<close> when a variable holds no value.
\<close>

definition state_fingerprint :: "hashfn \<Rightarrow> tlastate \<Rightarrow> error + string" where
  "state_fingerprint hs s =
     (if list_ex (\<lambda>k. \<not> isVal (getVarVal s k)) (map fst s) then Inl TypeError
      else Inr (hs (HArr (concat (map (\<lambda>k. [Some k, Some (fingerprint hs (theVal (getVarVal s k)))])
                                   (sort (map fst s)))))))"

section \<open>Evaluation contexts on a heap\<close>

text \<open>
  \<^verbatim>\<open>Context\<close>.  \<^verbatim>\<open>defns\<close> maps a definition name to the syntax node of its body.  Contexts
  are JavaScript objects: the evaluator passes them by reference and in two places assigns
  to a field of the context it was given, so contexts live in a heap and the evaluator
  works on addresses.  Values and states are never updated in place.
\<close>

record ctx =
  val :: "tlaval jsv"
  state :: tlastate
  defns :: "(string \<times> node) list"
  quant_bound :: "(string \<times> tlaval) list"
  constants :: "(string \<times> tlaval) list"
  prev_func_val :: "tlaval jsv"
  primed :: bool

type_synonym addr = nat

type_synonym heap = "ctx list"

type_synonym 'a M = "heap \<Rightarrow> error + ('a \<times> heap)"

definition ret :: "'a \<Rightarrow> 'a M" where
  "ret x = (\<lambda>h. Inr (x, h))"

definition throw :: "error \<Rightarrow> 'a M" where
  "throw e = (\<lambda>h. Inl e)"

definition bnd :: "'a M \<Rightarrow> ('a \<Rightarrow> 'b M) \<Rightarrow> 'b M" where
  "bnd m f = (\<lambda>h. case m h of Inl e \<Rightarrow> Inl e | Inr (x, h') \<Rightarrow> f x h')"

definition lift :: "error + 'a \<Rightarrow> 'a M" where
  "lift r = (case r of Inl e \<Rightarrow> throw e | Inr x \<Rightarrow> ret x)"

primrec mapM :: "('a \<Rightarrow> 'b M) \<Rightarrow> 'a list \<Rightarrow> 'b list M" where
  "mapM f [] = ret []"
| "mapM f (x # xs) = bnd (f x) (\<lambda>y. bnd (mapM f xs) (\<lambda>ys. ret (y # ys)))"

definition deref :: "addr \<Rightarrow> ctx M" where
  "deref a = (\<lambda>h. Inr (h ! a, h))"

definition alloc :: "ctx \<Rightarrow> addr M" where
  "alloc c = (\<lambda>h. Inr (length h, h @ [c]))"

definition modify :: "addr \<Rightarrow> (ctx \<Rightarrow> ctx) \<Rightarrow> unit M" where
  "modify a f = (\<lambda>h. Inr ((), h[a := f (h ! a)]))"

text \<open>
  \<^verbatim>\<open>clone()\<close> builds a new \<^verbatim>\<open>Context\<close> from copies of the fields; the constructor sets
  \<^verbatim>\<open>primed\<close> to false.  \<^verbatim>\<open>withVal\<close>, \<^verbatim>\<open>withValAndState\<close>, \<^verbatim>\<open>withBoundVar\<close> and
  \<^verbatim>\<open>withPrimed\<close> change a field of a clone.
\<close>

definition clone_ctx :: "ctx \<Rightarrow> ctx" where
  "clone_ctx c = c\<lparr>primed := False\<rparr>"

definition clone :: "addr \<Rightarrow> addr M" where
  "clone a = bnd (deref a) (\<lambda>c. alloc (clone_ctx c))"

definition withVal :: "addr \<Rightarrow> tlaval jsv \<Rightarrow> addr M" where
  "withVal a valNew = bnd (deref a) (\<lambda>c. alloc ((clone_ctx c)\<lparr>val := valNew\<rparr>))"

definition withValAndState :: "addr \<Rightarrow> tlaval jsv \<Rightarrow> tlastate \<Rightarrow> addr M" where
  "withValAndState a valNew stateNew =
     bnd (deref a) (\<lambda>c. alloc ((clone_ctx c)\<lparr>val := valNew, state := stateNew\<rparr>))"

definition withBoundVar :: "addr \<Rightarrow> string \<Rightarrow> tlaval \<Rightarrow> addr M" where
  "withBoundVar a name v =
     bnd (deref a) (\<lambda>c. alloc ((clone_ctx c)\<lparr>quant_bound := obj_set name v (quant_bound c)\<rparr>))"

definition withPrimed :: "addr \<Rightarrow> addr M" where
  "withPrimed a = bnd (deref a) (\<lambda>c. alloc ((clone_ctx c)\<lparr>primed := True\<rparr>))"

text \<open>
  What an evaluation function returns: \<^verbatim>\<open>undefined\<close> (\<open>None\<close>) or an array whose cells are
  contexts or \<^verbatim>\<open>undefined\<close>.
\<close>

type_synonym ctxs = "addr option list option"

type_synonym evaluator = "node \<Rightarrow> addr \<Rightarrow> ctxs M"

definition ret1 :: "addr \<Rightarrow> ctxs M" where
  "ret1 a = ret (Some [Some a])"

text \<open>\<^verbatim>\<open>return [ctx.withVal(v)]\<close>.\<close>

definition retVal :: "addr \<Rightarrow> tlaval jsv \<Rightarrow> ctxs M" where
  "retVal c v = bnd (withVal c v) ret1"

text \<open>\<^verbatim>\<open>_.flattenDeep\<close> of one result inside an array of results.\<close>

definition flat :: "ctxs \<Rightarrow> addr option list" where
  "flat r = (case r of None \<Rightarrow> [None] | Some xs \<Rightarrow> xs)"

text \<open>The idiom \<^verbatim>\<open>r[0]["val"]\<close>.\<close>

definition firstVal :: "ctxs \<Rightarrow> tlaval jsv M" where
  "firstVal r = (case r of Some (Some a # rest) \<Rightarrow> bnd (deref a) (\<lambda>c. ret (val c))
     | _ \<Rightarrow> throw TypeError)"

text \<open>The idiom \<^verbatim>\<open>assert(r.length === 1); r[0]["val"]\<close>.\<close>

definition soleVal :: "ctxs \<Rightarrow> tlaval jsv M" where
  "soleVal r = (case r of None \<Rightarrow> throw TypeError
     | Some [Some a] \<Rightarrow> bnd (deref a) (\<lambda>c. ret (val c))
     | Some [None] \<Rightarrow> throw TypeError
     | Some rs \<Rightarrow> throw AssertionFailed)"

text \<open>A method call on a reference: a \<^verbatim>\<open>TypeError\<close> on \<^verbatim>\<open>null\<close> and \<^verbatim>\<open>undefined\<close>.\<close>

definition asObj :: "tlaval jsv \<Rightarrow> tlaval M" where
  "asObj j = (case j of JVal v \<Rightarrow> ret v | _ \<Rightarrow> throw TypeError)"

definition getValM :: "tlaval jsv \<Rightarrow> jsprim M" where
  "getValM j = bnd (asObj j) (\<lambda>v. lift (getVal v))"

text \<open>\<^verbatim>\<open>assert(x instanceof IntValue)\<close>, \<^verbatim>\<open>BoolValue\<close>, \<^verbatim>\<open>SetValue\<close>.\<close>

definition assertInt :: "tlaval jsv \<Rightarrow> int M" where
  "assertInt j = (case j of JVal (IntValue n) \<Rightarrow> ret n | _ \<Rightarrow> throw AssertionFailed)"

definition assertSet :: "tlaval jsv \<Rightarrow> tlaval list M" where
  "assertSet j = (case j of JVal (SetValue es) \<Rightarrow> ret es | _ \<Rightarrow> throw AssertionFailed)"

definition isBoolValue :: "tlaval jsv \<Rightarrow> bool" where
  "isBoolValue j = (case j of JVal (BoolValue b) \<Rightarrow> True | _ \<Rightarrow> False)"

text \<open>\<^verbatim>\<open>a.fingerprint() === b.fingerprint()\<close>.\<close>

definition fpEq :: "hashfn \<Rightarrow> tlaval jsv \<Rightarrow> tlaval jsv \<Rightarrow> bool M" where
  "fpEq hs a b = bnd (asObj a) (\<lambda>x. bnd (asObj b) (\<lambda>y. ret (fingerprint hs x = fingerprint hs y)))"

text \<open>
  \<^verbatim>\<open>a.and(b)\<close>, that is \<^verbatim>\<open>new BoolValue(a.getVal() && b.getVal())\<close>: only \<^verbatim>\<open>BoolValue\<close> has
  the method, and \<^verbatim>\<open>b.getVal()\<close> is called only when \<^verbatim>\<open>a\<close> holds true.
\<close>

definition boolAnd :: "tlaval jsv \<Rightarrow> tlaval jsv \<Rightarrow> tlaval M" where
  "boolAnd a b = (case a of
       JVal (BoolValue x) \<Rightarrow>
         if x then bnd (getValM b) (\<lambda>p. case p of PBool y \<Rightarrow> ret (BoolValue y) | _ \<Rightarrow> throw NotModelled)
         else ret (BoolValue False)
     | _ \<Rightarrow> throw TypeError)"

section \<open>The evaluator\<close>

text \<open>
  Each \<^verbatim>\<open>eval...\<close> function takes the recursive evaluator \<open>ev\<close> (\<^verbatim>\<open>evalExpr\<close>) as an
  argument, the address \<open>c\<close> of the context it is given and the heap.  \<open>hs\<close> is \<^verbatim>\<open>hashSum\<close>;
  \<open>ap\<close> is the global \<^verbatim>\<open>ASSIGN_PRIMED\<close> (false while initial states are generated, true
  while next states are).
\<close>

text \<open>The idiom \<^verbatim>\<open>evalExpr(node, ctx)[0]["val"]\<close>.\<close>

definition evalVal :: "evaluator \<Rightarrow> node \<Rightarrow> addr \<Rightarrow> tlaval jsv M" where
  "evalVal ev n c = bnd (ev n c) firstVal"

definition evalLnot :: "evaluator \<Rightarrow> node \<Rightarrow> addr \<Rightarrow> ctxs M" where
  "evalLnot ev v c =
     bnd (evalVal ev v c) (\<lambda>lval.
     bnd (getValM lval) (\<lambda>p.
     retVal c (JVal (BoolValue (\<not> truthy p)))))"

definition landBranch :: "evaluator \<Rightarrow> node \<Rightarrow> addr option \<Rightarrow> addr option list M" where
  "landBranch ev rhs lctx = (case lctx of
       None \<Rightarrow> throw AssertionFailed
     | Some la \<Rightarrow>
         bnd (ev rhs la) (\<lambda>r. case r of
             None \<Rightarrow> throw TypeError
           | Some actxs \<Rightarrow>
               mapM (\<lambda>actx. case actx of
                    None \<Rightarrow> throw TypeError
                  | Some aa \<Rightarrow>
                      bnd (deref la) (\<lambda>lc.
                      bnd (deref aa) (\<lambda>ac.
                      bnd (boolAnd (val lc) (val ac)) (\<lambda>v.
                      bnd (withValAndState aa (JVal v) (state ac)) (\<lambda>n. ret (Some n))))))
                 actxs))"

definition evalLand :: "evaluator \<Rightarrow> node \<Rightarrow> node \<Rightarrow> addr \<Rightarrow> ctxs M" where
  "evalLand ev lhs rhs c =
     bnd (ev lhs c) (\<lambda>l.
     bnd (mapM (landBranch ev rhs) (case l of None \<Rightarrow> [] | Some lhsEval \<Rightarrow> lhsEval)) (\<lambda>rhsEval.
     ret (Some (concat rhsEval))))"

text \<open>
  \<^verbatim>\<open>processDisjunctiveContexts(ctx, retCtxs, currAssignedVars)\<close>; \<open>n\<close> is
  \<^verbatim>\<open>currAssignedVars.length\<close>.
\<close>

definition processDisjunctiveContexts :: "addr \<Rightarrow> addr option list \<Rightarrow> nat \<Rightarrow> ctxs M" where
  "processDisjunctiveContexts c retCtxs n =
     (if length retCtxs > 1 then
        if list_ex (\<lambda>r. r = None) retCtxs then throw TypeError
        else
          bnd (mapM deref (map the retCtxs)) (\<lambda>cs.
          if \<not> list_all (\<lambda>x. isBoolValue (val x)) cs then throw AssertionFailed
          else if list_ex (\<lambda>x. length (assignedVars (state x)) > n) cs then ret (Some retCtxs)
          else retVal c (JVal (BoolValue (list_ex (\<lambda>x. val x = JVal (BoolValue True)) cs))))
      else ret (Some retCtxs))"

definition evalLor :: "evaluator \<Rightarrow> node \<Rightarrow> node \<Rightarrow> addr \<Rightarrow> ctxs M" where
  "evalLor ev lhs rhs c =
     bnd (deref c) (\<lambda>cx.
     bnd (ev lhs c) (\<lambda>ctxLhs.
     bnd (ev rhs c) (\<lambda>ctxRhs.
     case ctxLhs of
       None \<Rightarrow> throw TypeError
     | Some l \<Rightarrow> processDisjunctiveContexts c (l @ (case ctxRhs of None \<Rightarrow> [None] | Some r \<Rightarrow> r))
                  (length (assignedVars (state cx))))))"

definition isPrimedVar :: "node \<Rightarrow> ctx \<Rightarrow> bool" where
  "isPrimedVar treeNode cx = (case treeNode of
       BoundPostfixPrime (IdentifierRef x) \<Rightarrow> hasVar (state cx) x \<and> getVarVal (state cx) x \<noteq> JNull
     | _ \<Rightarrow> False)"

text \<open>
  \<^verbatim>\<open>evalEq\<close>.  In the assigning branch the right-hand side is evaluated inside the
  \<^verbatim>\<open>_.mapValues\<close> callback, for the key equal to \<^verbatim>\<open>identName\<close>: once when the state has
  that key, and not at all otherwise.
\<close>

definition evalEq :: "hashfn \<Rightarrow> bool \<Rightarrow> evaluator \<Rightarrow> node \<Rightarrow> node \<Rightarrow> addr \<Rightarrow> ctxs M" where
  "evalEq hs ap ev lhs rhs c =
     bnd (deref c) (\<lambda>cx.
     let identName = node_text lhs;
         isUnprimedVar = hasVar (state cx) identName \<and> \<not> isPrimedVar lhs cx
     in
     if isPrimedVar lhs cx \<or> (isUnprimedVar \<and> \<not> ap) then
       if hasVar (state cx) identName \<and> getVarVal (state cx) identName \<noteq> JNull then
         bnd (ev rhs c) (\<lambda>rhsVals.
         bnd (soleVal rhsVals) (\<lambda>rhsVal.
         bnd (evalVal ev lhs c) (\<lambda>lhsVals.
         bnd (fpEq hs lhsVals rhsVal) (\<lambda>boolVal.
         retVal c (JVal (BoolValue boolVal))))))
       else if hasVar (state cx) identName then
         bnd (clone c) (\<lambda>c1.
         bnd (ev rhs c1) (\<lambda>rhsVals.
         bnd (soleVal rhsVals) (\<lambda>rhsVal.
         bnd (withValAndState c (JVal (BoolValue True)) (withVarVal (state cx) identName rhsVal))
           ret1)))
       else
         bnd (withValAndState c (JVal (BoolValue True)) (state cx)) ret1
     else
       bnd (clone c) (\<lambda>c1.
       bnd (ev lhs c1) (\<lambda>lhsVals.
       bnd (soleVal lhsVals) (\<lambda>lhsVal.
       bnd (clone c) (\<lambda>c2.
       bnd (ev rhs c2) (\<lambda>rhsVals.
       bnd (soleVal rhsVals) (\<lambda>rhsVal.
       bnd (fpEq hs lhsVal rhsVal) (\<lambda>boolVal.
       retVal c (JVal (BoolValue boolVal))))))))))"

text \<open>
  \<^verbatim>\<open>evalUnchanged\<close>.  The \<^verbatim>\<open>while\<close> loop that replaces a definition name by the body of
  the definition is bounded by \<open>fuel\<close>.  For each variable the function assigns to
  \<^verbatim>\<open>ctx.state\<close>, a field of the context it was given.
\<close>

fun resolveUnchanged :: "nat \<Rightarrow> (string \<times> node) list \<Rightarrow> node \<Rightarrow> node option" where
  "resolveUnchanged fuel ds (IdentifierRef x) = (case map_of ds x of
       None \<Rightarrow> Some (IdentifierRef x)
     | Some d \<Rightarrow> (case fuel of 0 \<Rightarrow> None | Suc k \<Rightarrow> resolveUnchanged k ds d))"
| "resolveUnchanged fuel ds u = Some u"

definition unchangedVar :: "evaluator \<Rightarrow> addr \<Rightarrow> node \<Rightarrow> unit M" where
  "unchangedVar ev c elem =
     bnd (evalVal ev elem c) (\<lambda>unprimedVarVal.
     modify c (\<lambda>cx. cx\<lparr>state := withVarVal (state cx) (node_text elem @ [CHR 0x27]) unprimedVarVal\<rparr>))"

definition isIdentifierRef :: "node \<Rightarrow> bool" where
  "isIdentifierRef n = (case n of IdentifierRef x \<Rightarrow> True | _ \<Rightarrow> False)"

definition evalUnchanged :: "nat \<Rightarrow> evaluator \<Rightarrow> node \<Rightarrow> addr \<Rightarrow> ctxs M" where
  "evalUnchanged fuel ev operand c =
     bnd (deref c) (\<lambda>cx.
     case resolveUnchanged fuel (defns cx) operand of
       None \<Rightarrow> throw OutOfFuel
     | Some unchangedVal \<Rightarrow> (case unchangedVal of
           TupleLiteral elems \<Rightarrow>
             bnd (mapM (unchangedVar ev c) (filter isIdentifierRef elems)) (\<lambda>us.
             retVal c (JVal (BoolValue True)))
         | IdentifierRef x \<Rightarrow>
             bnd (unchangedVar ev c (IdentifierRef x)) (\<lambda>u.
             retVal c (JVal (BoolValue True)))
         | _ \<Rightarrow> throw AssertionFailed))"

text \<open>
  The arithmetic of \<^verbatim>\<open>evalBoundInfix\<close>.  \<^verbatim>\<open>mul\<close> multiplies what \<^verbatim>\<open>getVal()\<close> returns
  without a type check: JavaScript turns a boolean operand into 0 or 1.
\<close>

definition js_mul :: "jsprim \<Rightarrow> jsprim \<Rightarrow> error + int" where
  "js_mul p q = (case (p, q) of
       (PNum a, PNum b) \<Rightarrow> Inr (a * b)
     | (PNum a, PBool b) \<Rightarrow> Inr (a * (if b then 1 else 0))
     | (PBool a, PNum b) \<Rightarrow> Inr ((if a then 1 else 0) * b)
     | (PBool a, PBool b) \<Rightarrow> Inr ((if a then 1 else 0) * (if b then 1 else 0))
     | _ \<Rightarrow> Inl NotModelled)"

definition evalMul :: "evaluator \<Rightarrow> node \<Rightarrow> node \<Rightarrow> addr \<Rightarrow> ctxs M" where
  "evalMul ev lhs rhs c =
     bnd (evalVal ev lhs c) (\<lambda>lhsVal.
     bnd (evalVal ev rhs c) (\<lambda>rhsVal.
     bnd (getValM lhsVal) (\<lambda>p.
     bnd (getValM rhsVal) (\<lambda>q.
     bnd (lift (js_mul p q)) (\<lambda>outVal.
     retVal c (JVal (IntValue outVal)))))))"

text \<open>\<^verbatim>\<open>plus\<close>, \<^verbatim>\<open>minus\<close>, \<^verbatim>\<open>gt\<close>, \<^verbatim>\<open>lt\<close>, \<^verbatim>\<open>geq\<close>, \<^verbatim>\<open>leq\<close>: both operands are asserted to be integers.\<close>

definition evalIntOp :: "(int \<Rightarrow> int \<Rightarrow> tlaval) \<Rightarrow> evaluator \<Rightarrow> node \<Rightarrow> node \<Rightarrow> addr \<Rightarrow> ctxs M" where
  "evalIntOp f ev lhs rhs c =
     bnd (evalVal ev lhs c) (\<lambda>lhsVal.
     bnd (evalVal ev rhs c) (\<lambda>rhsVal.
     bnd (assertInt lhsVal) (\<lambda>a.
     bnd (assertInt rhsVal) (\<lambda>b.
     retVal c (JVal (f a b))))))"

text \<open>\<^verbatim>\<open>implies\<close>: \<^verbatim>\<open>new BoolValue(!a.getVal() || b.getVal())\<close>.\<close>

definition evalImplies :: "evaluator \<Rightarrow> node \<Rightarrow> node \<Rightarrow> addr \<Rightarrow> ctxs M" where
  "evalImplies ev lhs rhs c =
     bnd (evalVal ev lhs c) (\<lambda>a.
     bnd (evalVal ev rhs c) (\<lambda>b.
     bnd (getValM a) (\<lambda>p.
     if truthy p then
       bnd (getValM b) (\<lambda>q. case q of
           PBool y \<Rightarrow> retVal c (JVal (BoolValue y))
         | _ \<Rightarrow> throw NotModelled)
     else retVal c (JVal (BoolValue True)))))"

definition evalNeq :: "hashfn \<Rightarrow> evaluator \<Rightarrow> node \<Rightarrow> node \<Rightarrow> addr \<Rightarrow> ctxs M" where
  "evalNeq hs ev lhs rhs c =
     bnd (evalVal ev lhs c) (\<lambda>lhsVal.
     bnd (ev rhs c) (\<lambda>rhsVals.
     bnd (soleVal rhsVals) (\<lambda>rhsVal.
     bnd (fpEq hs lhsVal rhsVal) (\<lambda>eq.
     retVal c (JVal (BoolValue (\<not> eq)))))))"

text \<open>\<^verbatim>\<open>cap\<close>, \<^verbatim>\<open>cup\<close>, \<^verbatim>\<open>setminus\<close>, \<^verbatim>\<open>times\<close>: both operands are asserted to be sets.\<close>

definition evalSetOp ::
  "(tlaval list \<Rightarrow> tlaval list \<Rightarrow> tlaval) \<Rightarrow> evaluator \<Rightarrow> node \<Rightarrow> node \<Rightarrow> addr \<Rightarrow> ctxs M" where
  "evalSetOp f ev lhs rhs c =
     bnd (evalVal ev lhs c) (\<lambda>lhsVal.
     bnd (evalVal ev rhs c) (\<lambda>rhsVal.
     bnd (assertSet lhsVal) (\<lambda>a.
     bnd (assertSet rhsVal) (\<lambda>b.
     retVal c (JVal (f a b))))))"

definition intersectionWith :: "hashfn \<Rightarrow> tlaval list \<Rightarrow> tlaval list \<Rightarrow> tlaval" where
  "intersectionWith hs a b = mkSet hs (intersectionWith_isEqual a b)"

definition unionWith :: "hashfn \<Rightarrow> tlaval list \<Rightarrow> tlaval list \<Rightarrow> tlaval" where
  "unionWith hs a b = mkSet hs (uniqWith_isEqual (a @ b))"

definition diffWith :: "hashfn \<Rightarrow> tlaval list \<Rightarrow> tlaval list \<Rightarrow> tlaval" where
  "diffWith hs a b = mkSet hs (differenceWith_isEqual a b)"

definition setTimes :: "hashfn \<Rightarrow> tlaval list \<Rightarrow> tlaval list \<Rightarrow> tlaval" where
  "setTimes hs a b = mkSet hs (map TupleValue (cartesianProductOf2 a b))"

text \<open>\<^verbatim>\<open>dots_2\<close>: \<^verbatim>\<open>_.range(lhsVal.getVal(), rhsVal.getVal() + 1)\<close> as a set.\<close>

definition dots2 :: "hashfn \<Rightarrow> int \<Rightarrow> int \<Rightarrow> tlaval" where
  "dots2 hs a b = mkSet hs (map IntValue (lodash_range a (b + 1)))"

definition evalBoundInfix ::
  "hashfn \<Rightarrow> bool \<Rightarrow> evaluator \<Rightarrow> node \<Rightarrow> infix_symbol \<Rightarrow> node \<Rightarrow> addr \<Rightarrow> ctxs M" where
  "evalBoundInfix hs ap ev lhs symbol rhs c = (case symbol of
       Mul \<Rightarrow> evalMul ev lhs rhs c
     | Plus \<Rightarrow> evalIntOp (\<lambda>a b. IntValue (a + b)) ev lhs rhs c
     | Minus \<Rightarrow> evalIntOp (\<lambda>a b. IntValue (a - b)) ev lhs rhs c
     | Gt \<Rightarrow> evalIntOp (\<lambda>a b. BoolValue (a > b)) ev lhs rhs c
     | Lt \<Rightarrow> evalIntOp (\<lambda>a b. BoolValue (a < b)) ev lhs rhs c
     | Geq \<Rightarrow> evalIntOp (\<lambda>a b. BoolValue (a \<ge> b)) ev lhs rhs c
     | Leq \<Rightarrow> evalIntOp (\<lambda>a b. BoolValue (a \<le> b)) ev lhs rhs c
     | Lor \<Rightarrow> evalLor ev lhs rhs c
     | Land \<Rightarrow> evalLand ev lhs rhs c
     | Implies \<Rightarrow> evalImplies ev lhs rhs c
     | Eq \<Rightarrow> evalEq hs ap ev lhs rhs c
     | Neq \<Rightarrow> evalNeq hs ev lhs rhs c
     | In \<Rightarrow> throw AssertionFailed
     | Notin \<Rightarrow> throw AssertionFailed
     | Cap \<Rightarrow> evalSetOp (intersectionWith hs) ev lhs rhs c
     | Cup \<Rightarrow> evalSetOp (unionWith hs) ev lhs rhs c
     | Setminus \<Rightarrow> evalSetOp (diffWith hs) ev lhs rhs c
     | Times \<Rightarrow> evalSetOp (setTimes hs) ev lhs rhs c
     | Dots2 \<Rightarrow> evalIntOp (dots2 hs) ev lhs rhs c)"

definition evalEnabled :: "evaluator \<Rightarrow> node \<Rightarrow> addr \<Rightarrow> ctxs M" where
  "evalEnabled ev rhs c =
     bnd (evalVal ev rhs c) (\<lambda>rhsVal.
     if isBoolValue rhsVal then retVal c rhsVal else throw AssertionFailed)"

text \<open>\<^verbatim>\<open>DOMAIN\<close>: a tuple has the domain \<open>1..n\<close>; otherwise \<^verbatim>\<open>getDomain()\<close> is called.\<close>

definition evalDomain :: "hashfn \<Rightarrow> evaluator \<Rightarrow> node \<Rightarrow> addr \<Rightarrow> ctxs M" where
  "evalDomain hs ev rhs c =
     bnd (evalVal ev rhs c) (\<lambda>rhsVal. case rhsVal of
         JVal (TupleValue es) \<Rightarrow>
           retVal c (JVal (mkSet hs (map IntValue (lodash_range 1 (int (length es) + 1)))))
       | JVal (FcnRcdValue dm vals isRecord) \<Rightarrow> retVal c (JVal (mkSet hs dm))
       | _ \<Rightarrow> throw TypeError)"

definition evalBoundPrefix ::
  "hashfn \<Rightarrow> nat \<Rightarrow> evaluator \<Rightarrow> prefix_symbol \<Rightarrow> node \<Rightarrow> addr \<Rightarrow> ctxs M" where
  "evalBoundPrefix hs fuel ev symbol rhs c = (case symbol of
       Enabled \<Rightarrow> evalEnabled ev rhs c
     | Domain \<Rightarrow> evalDomain hs ev rhs c
     | Lnot \<Rightarrow> evalLnot ev rhs c
     | Unchanged \<Rightarrow> evalUnchanged fuel ev rhs c)"

definition evalBoundPostfix :: "evaluator \<Rightarrow> node \<Rightarrow> addr \<Rightarrow> ctxs M" where
  "evalBoundPostfix ev lhs c = bnd (withPrimed c) (\<lambda>p. ev lhs p)"

definition evalDisjList :: "evaluator \<Rightarrow> node list \<Rightarrow> addr \<Rightarrow> ctxs M" where
  "evalDisjList ev disjs c =
     bnd (deref c) (\<lambda>cx.
     bnd (mapM (\<lambda>dj. ev dj c) disjs) (\<lambda>rs.
     processDisjunctiveContexts c (concat (map flat rs)) (length (assignedVars (state cx)))))"

text \<open>
  \<^verbatim>\<open>evalConjList\<close>.  It first assigns \<^verbatim>\<open>TRUE\<close> to \<^verbatim>\<open>ctx["val"]\<close> of the context it was given
  when that is \<^verbatim>\<open>null\<close>.  A branch whose value is \<^verbatim>\<open>false\<close> is passed on as it is.
\<close>

definition conjBranch :: "evaluator \<Rightarrow> node \<Rightarrow> addr option \<Rightarrow> addr option list M" where
  "conjBranch ev cj ctxPrev = (case ctxPrev of
       None \<Rightarrow> throw TypeError
     | Some pa \<Rightarrow>
         bnd (deref pa) (\<lambda>pc.
         bnd (getValM (val pc)) (\<lambda>p.
         if p = PBool False then ret [Some pa]
         else
           bnd (ev cj pa) (\<lambda>r. case r of
               None \<Rightarrow> throw TypeError
             | Some cur \<Rightarrow>
                 mapM (\<lambda>ctxCurr. case ctxCurr of
                      None \<Rightarrow> throw TypeError
                    | Some ca \<Rightarrow>
                        bnd (deref ca) (\<lambda>cc.
                        bnd (deref pa) (\<lambda>pc'.
                        bnd (boolAnd (val cc) (val pc')) (\<lambda>conjVal.
                        bnd (withVal ca (JVal conjVal)) (\<lambda>n. ret (Some n))))))
                   cur))))"

primrec conjReduce :: "evaluator \<Rightarrow> node list \<Rightarrow> addr option list \<Rightarrow> addr option list M" where
  "conjReduce ev [] prev = ret prev"
| "conjReduce ev (cj # conjs) prev =
     bnd (mapM (conjBranch ev cj) prev) (\<lambda>res. conjReduce ev conjs (concat res))"

definition evalConjList :: "evaluator \<Rightarrow> node list \<Rightarrow> addr \<Rightarrow> ctxs M" where
  "evalConjList ev conjs c =
     bnd (modify c (\<lambda>cx. if val cx = JNull then cx\<lparr>val := JVal (BoolValue True)\<rparr> else cx)) (\<lambda>u.
     bnd (conjReduce ev conjs [Some c]) (\<lambda>r. ret (Some r)))"

text \<open>
  \<^verbatim>\<open>evalIdentifierRef\<close>: a state variable (primed or not, by the flag of the context), a
  bound identifier, a definition, a constant; otherwise the function ends without a
  \<^verbatim>\<open>return\<close> and the caller receives \<^verbatim>\<open>undefined\<close>.
\<close>

definition evalIdentifierRef :: "evaluator \<Rightarrow> string \<Rightarrow> addr \<Rightarrow> ctxs M" where
  "evalIdentifierRef ev ident_name c =
     bnd (deref c) (\<lambda>cx.
     if hasVar (state cx) ident_name \<and> \<not> primed cx
       then retVal c (getVarVal (state cx) ident_name)
     else if hasVar (state cx) (ident_name @ [CHR 0x27]) \<and> primed cx
       then retVal c (getVarVal (state cx) (ident_name @ [CHR 0x27]))
     else (case map_of (quant_bound cx) ident_name of
         Some bound_val \<Rightarrow> retVal c (JVal bound_val)
       | None \<Rightarrow> (case map_of (defns cx) ident_name of
           Some defNode \<Rightarrow> ev defNode c
         | None \<Rightarrow> (case map_of (constants cx) ident_name of
             Some constantVal \<Rightarrow> retVal c (JVal constantVal)
           | None \<Rightarrow> ret None))))"

text \<open>
  \<^verbatim>\<open>evalBoundedQuantification\<close>, for one identifier and one domain.  The body is evaluated on
  a clone of the context with the identifier bound.
\<close>

definition quantBranch :: "evaluator \<Rightarrow> string \<Rightarrow> node \<Rightarrow> addr \<Rightarrow> tlaval \<Rightarrow> ctxs M" where
  "quantBranch ev quantIdent quant_expr c domVal =
     bnd (withBoundVar c quantIdent domVal) (\<lambda>boundContext.
     bnd (clone boundContext) (\<lambda>b. ev quant_expr b))"

definition forallResult :: "addr option list \<Rightarrow> bool M" where
  "forallResult retCtxs =
     bnd (mapM (\<lambda>r. case r of
            None \<Rightarrow> throw TypeError
          | Some a \<Rightarrow> bnd (deref a) (\<lambda>x. getValM (val x))) retCtxs) (\<lambda>allVals.
     ret (list_all truthy allVals))"

definition evalBoundedQuantification ::
  "evaluator \<Rightarrow> quantifier \<Rightarrow> string \<Rightarrow> node \<Rightarrow> node \<Rightarrow> addr \<Rightarrow> ctxs M" where
  "evalBoundedQuantification ev q quantIdent domainExpr quant_expr c =
     bnd (evalVal ev domainExpr c) (\<lambda>domainVal.
     bnd (assertSet domainVal) (\<lambda>quantDomain.
     if quantDomain = [] then retVal c (JVal (BoolValue (q = Forall)))
     else
       bnd (deref c) (\<lambda>cx.
       bnd (mapM (quantBranch ev quantIdent quant_expr c) quantDomain) (\<lambda>rs.
       if q = Forall then
         bnd (forallResult (concat (map flat rs))) (\<lambda>res. retVal c (JVal (BoolValue res)))
       else
         processDisjunctiveContexts c (concat (map flat rs))
           (length (assignedVars (state cx)))))))"

text \<open>
  \<^verbatim>\<open>evalChoose\<close>: the \<^verbatim>\<open>for ... of\<close> loop over \<^verbatim>\<open>domainVal.getElems()\<close>, in the order of that
  array; the first element whose condition is truthy is returned.
\<close>

primrec chooseLoop :: "evaluator \<Rightarrow> string \<Rightarrow> node \<Rightarrow> addr \<Rightarrow> tlaval list \<Rightarrow> ctxs M" where
  "chooseLoop ev boundVar condition c [] = throw (Thrown ''No value satisfying CHOOSE predicate'')"
| "chooseLoop ev boundVar condition c (v # vs) =
     bnd (withBoundVar c boundVar v) (\<lambda>boundCtx.
     bnd (evalVal ev condition boundCtx) (\<lambda>condVal.
     bnd (getValM condVal) (\<lambda>p.
     if truthy p then retVal c (JVal v) else chooseLoop ev boundVar condition c vs)))"

definition getElems :: "tlaval jsv \<Rightarrow> tlaval list M" where
  "getElems j = (case j of JVal (SetValue es) \<Rightarrow> ret es | JVal (TupleValue es) \<Rightarrow> ret es
     | _ \<Rightarrow> throw TypeError)"

definition evalChoose :: "evaluator \<Rightarrow> string \<Rightarrow> node \<Rightarrow> node \<Rightarrow> addr \<Rightarrow> ctxs M" where
  "evalChoose ev boundVar domain condition c =
     bnd (evalVal ev domain c) (\<lambda>domainVal.
     bnd (getElems domainVal) (\<lambda>elems.
     chooseLoop ev boundVar condition c elems))"

definition evalIfThenElse :: "evaluator \<Rightarrow> node \<Rightarrow> node \<Rightarrow> node \<Rightarrow> addr \<Rightarrow> ctxs M" where
  "evalIfThenElse ev cond thenNode elseNode c =
     bnd (clone c) (\<lambda>c1.
     bnd (evalVal ev cond c1) (\<lambda>condVal.
     bnd (getValM condVal) (\<lambda>p.
     bnd (clone c) (\<lambda>c2.
     if truthy p then ev thenNode c2 else ev elseNode c2))))"

text \<open>
  \<^verbatim>\<open>evalFiniteSetLiteral\<close> asserts that each element evaluates to one context; the
  \<^verbatim>\<open>SetValue\<close> constructor calls \<^verbatim>\<open>fingerprint()\<close> on each element.  A tuple literal takes
  the first context of each element.
\<close>

definition evalFiniteSetLiteral :: "hashfn \<Rightarrow> evaluator \<Rightarrow> node list \<Rightarrow> addr \<Rightarrow> ctxs M" where
  "evalFiniteSetLiteral hs ev children c =
     bnd (mapM (\<lambda>child. bnd (ev child c) soleVal) children) (\<lambda>vs.
     if list_all isVal vs then retVal c (JVal (mkSet hs (map theVal vs))) else throw TypeError)"

definition evalTupleLiteral :: "evaluator \<Rightarrow> node list \<Rightarrow> addr \<Rightarrow> ctxs M" where
  "evalTupleLiteral ev elems c =
     bnd (mapM (\<lambda>el. evalVal ev el c) elems) (\<lambda>tupleVals.
     if list_all isVal tupleVals then retVal c (JVal (TupleValue (map theVal tupleVals)))
     else throw NotModelled)"

text \<open>
  One call of \<^verbatim>\<open>evalExpr\<close>, by node type.  The test \<^verbatim>\<open>isPrimedVar(node, ctx)\<close>, which
  \<^verbatim>\<open>evalExpr\<close> makes before it looks at most node types, holds for a
  \<^verbatim>\<open>bound_postfix_op\<close> node only and stands in that case.
\<close>

fun evalStep :: "hashfn \<Rightarrow> bool \<Rightarrow> nat \<Rightarrow> evaluator \<Rightarrow> node \<Rightarrow> addr \<Rightarrow> ctxs M" where
  "evalStep hs ap fuel ev (Parentheses e) c = ev e c"
| "evalStep hs ap fuel ev (Choose x d e) c = evalChoose ev x d e c"
| "evalStep hs ap fuel ev (BoundPostfixPrime e) c =
     bnd (deref c) (\<lambda>cx.
     if isPrimedVar (BoundPostfixPrime e) cx
        \<and> getVarVal (state cx) (node_text (BoundPostfixPrime e)) \<noteq> JNull
     then retVal c (getVarVal (state cx) (node_text (BoundPostfixPrime e)))
     else evalBoundPostfix ev e c)"
| "evalStep hs ap fuel ev (ConjList conjs) c = evalConjList ev conjs c"
| "evalStep hs ap fuel ev (DisjList disjs) c = evalDisjList ev disjs c"
| "evalStep hs ap fuel ev (ConjItem e) c = ev e c"
| "evalStep hs ap fuel ev (DisjItem e) c = ev e c"
| "evalStep hs ap fuel ev (BoundInfixOp lhs symbol rhs) c = evalBoundInfix hs ap ev lhs symbol rhs c"
| "evalStep hs ap fuel ev (BoundPrefixOp symbol rhs) c = evalBoundPrefix hs fuel ev symbol rhs c"
| "evalStep hs ap fuel ev (BoundedQuantification q x d e) c =
     evalBoundedQuantification ev q x d e c"
| "evalStep hs ap fuel ev (IdentifierRef x) c = evalIdentifierRef ev x c"
| "evalStep hs ap fuel ev (IfThenElse i t e) c = evalIfThenElse ev i t e c"
| "evalStep hs ap fuel ev BooleanSet c =
     retVal c (JVal (mkSet hs [BoolValue True, BoolValue False]))"
| "evalStep hs ap fuel ev (NatNumber t) c = retVal c (JVal (IntValue (parseInt t)))"
| "evalStep hs ap fuel ev (Boolean t) c = retVal c (JVal (BoolValue (t = ''TRUE'')))"
| "evalStep hs ap fuel ev (StringLit t) c = retVal c (JVal (StringValue (butlast (tl t))))"
| "evalStep hs ap fuel ev (FiniteSetLiteral children) c = evalFiniteSetLiteral hs ev children c"
| "evalStep hs ap fuel ev (TupleLiteral elems) c = evalTupleLiteral ev elems c"

text \<open>
  \<^verbatim>\<open>evalExpr\<close>, with a bound on the depth of the recursion: when the bound is reached the
  result is \<open>OutOfFuel\<close>.
\<close>

primrec evalExpr :: "hashfn \<Rightarrow> bool \<Rightarrow> nat \<Rightarrow> evaluator" where
  "evalExpr hs ap 0 = (\<lambda>n c. throw OutOfFuel)"
| "evalExpr hs ap (Suc k) = evalStep hs ap (Suc k) (evalExpr hs ap k)"

section \<open>State generation\<close>

text \<open>The context \<^verbatim>\<open>new Context(null, state, defns, {}, constvals)\<close>.\<close>

definition newContext :: "tlastate \<Rightarrow> (string \<times> node) list \<Rightarrow> (string \<times> tlaval) list \<Rightarrow> ctx" where
  "newContext st ds constvals =
     \<lparr>val = JNull, state = st, defns = ds, quant_bound = [], constants = constvals,
      prev_func_val = JUndef, primed = False\<rparr>"

text \<open>
  \<^verbatim>\<open>getInitStates\<close>: every declared variable starts as \<^verbatim>\<open>null\<close>; the result is the array
  \<^verbatim>\<open>evalExpr\<close> returns (iterating over \<^verbatim>\<open>undefined\<close> is a \<^verbatim>\<open>TypeError\<close>).  Contexts are read
  out of the heap when the evaluation has ended; a cell \<^verbatim>\<open>undefined\<close> is \<open>None\<close>.
\<close>

definition readOut :: "heap \<Rightarrow> addr option list \<Rightarrow> ctx option list" where
  "readOut h rs = map (map_option (\<lambda>a. h ! a)) rs"

definition getInitStates ::
  "hashfn \<Rightarrow> nat \<Rightarrow> node \<Rightarrow> string list \<Rightarrow> (string \<times> node) list \<Rightarrow> (string \<times> tlaval) list
     \<Rightarrow> error + ctx option list" where
  "getInitStates hs fuel initDef vars ds constvals =
     (let init_var_vals = foldl (\<lambda>s v. obj_set v JNull s) [] vars in
      case evalExpr hs False fuel initDef 0 [newContext init_var_vals ds constvals] of
        Inl e \<Rightarrow> Inl e
      | Inr (None, h) \<Rightarrow> Inl TypeError
      | Inr (Some ret_ctxs, h) \<Rightarrow> Inr (readOut h ret_ctxs))"

text \<open>
  \<^verbatim>\<open>computeInitStates\<close>: the states of the contexts whose value is truthy, in the order of
  the array; \<open>ds\<close> holds the operator and function definitions.
\<close>

definition ctxGetVal :: "ctx option \<Rightarrow> error + jsprim" where
  "ctxGetVal oc = (case oc of
       None \<Rightarrow> Inl TypeError
     | Some cx \<Rightarrow> (case val cx of JVal v \<Rightarrow> getVal v | _ \<Rightarrow> Inl TypeError))"

definition computeInitStates ::
  "hashfn \<Rightarrow> nat \<Rightarrow> string list \<Rightarrow> (string \<times> node) list \<Rightarrow> (string \<times> tlaval) list
     \<Rightarrow> error + tlastate list" where
  "computeInitStates hs fuel vars ds constvals = (case map_of ds ''Init'' of
       None \<Rightarrow> Inl TypeError
     | Some initDef \<Rightarrow> (case getInitStates hs fuel initDef vars ds constvals of
         Inl e \<Rightarrow> Inl e
       | Inr initStates \<Rightarrow>
           if list_ex (\<lambda>actx. isl (ctxGetVal actx)) initStates then Inl TypeError
           else Inr (map (\<lambda>actx. state (the actx))
                      (filter (\<lambda>actx. truthy (projr (ctxGetVal actx))) initStates))))"

text \<open>
  \<^verbatim>\<open>getNextStates\<close>: a primed key holding \<^verbatim>\<open>null\<close> is added for each variable of the current
  state; of the contexts \<^verbatim>\<open>evalExpr\<close> returns, those are kept whose value is \<^verbatim>\<open>true\<close> and in
  which no primed variable is \<^verbatim>\<open>null\<close>.
\<close>

definition addPrimed :: "tlastate \<Rightarrow> tlastate" where
  "addPrimed s = foldl (\<lambda>t k. obj_set (k @ [CHR 0x27]) JNull t) s (map fst s)"

definition allPrimedAssigned :: "string list \<Rightarrow> ctx \<Rightarrow> bool" where
  "allPrimedAssigned origVars cx =
     list_all (\<lambda>v. getVarVal (state cx) (v @ [CHR 0x27]) \<noteq> JNull) origVars"

definition getNextStates ::
  "hashfn \<Rightarrow> nat \<Rightarrow> node \<Rightarrow> tlastate \<Rightarrow> (string \<times> node) list \<Rightarrow> (string \<times> tlaval) list
     \<Rightarrow> error + ctx list" where
  "getNextStates hs fuel nextDef currStateVars ds constvals =
     (let origVars = map fst currStateVars in
      case evalExpr hs True fuel nextDef 0 [newContext (addPrimed currStateVars) ds constvals] of
        Inl e \<Rightarrow> Inl e
      | Inr (None, h) \<Rightarrow> Inl TypeError
      | Inr (Some rs, h) \<Rightarrow>
          if list_ex (\<lambda>x. isl (ctxGetVal x)) (readOut h rs) then Inl TypeError
          else Inr (filter (allPrimedAssigned origVars)
                     (map the (filter (\<lambda>x. projr (ctxGetVal x) = PBool True) (readOut h rs)))))"

text \<open>\<^verbatim>\<open>computeNextStates\<close>: the contexts \<^verbatim>\<open>getNextStates\<close> returns for each given state.\<close>

primrec computeNextStatesLoop ::
  "hashfn \<Rightarrow> nat \<Rightarrow> node \<Rightarrow> (string \<times> node) list \<Rightarrow> (string \<times> tlaval) list \<Rightarrow> tlastate list
     \<Rightarrow> error + ctx list" where
  "computeNextStatesLoop hs fuel nextDef ds constvals [] = Inr []"
| "computeNextStatesLoop hs fuel nextDef ds constvals (istate # rest) =
     (case getNextStates hs fuel nextDef istate ds constvals of
        Inl e \<Rightarrow> Inl e
      | Inr r \<Rightarrow> (case computeNextStatesLoop hs fuel nextDef ds constvals rest of
          Inl e \<Rightarrow> Inl e
        | Inr rs \<Rightarrow> Inr (r @ rs)))"

definition computeNextStates ::
  "hashfn \<Rightarrow> nat \<Rightarrow> (string \<times> node) list \<Rightarrow> (string \<times> tlaval) list \<Rightarrow> tlastate list
     \<Rightarrow> error + ctx list" where
  "computeNextStates hs fuel ds constvals initStates = (case map_of ds ''Next'' of
       None \<Rightarrow> Inl TypeError
     | Some nextDef \<Rightarrow> computeNextStatesLoop hs fuel nextDef ds constvals initStates)"

text \<open>
  The line \<^verbatim>\<open>computeNextStates(treeObjs, constvals, [currStateArg]).map(c => c["state"].deprimeVars())\<close>
  of \<^verbatim>\<open>computeReachableStates\<close>: the successor states of one state.
\<close>

definition successorStates ::
  "hashfn \<Rightarrow> nat \<Rightarrow> (string \<times> node) list \<Rightarrow> (string \<times> tlaval) list \<Rightarrow> tlastate
     \<Rightarrow> error + tlastate list" where
  "successorStates hs fuel ds constvals currState =
     (case computeNextStates hs fuel ds constvals [currState] of
        Inl e \<Rightarrow> Inl e
      | Inr cs \<Rightarrow> Inr (map (\<lambda>cx. deprimeVars (state cx)) cs))"

section \<open>Notions used in the statements\<close>

text \<open>
  What an evaluation returned, read out of the heap: the value and the state of each
  returned context.
\<close>

definition outcome ::
  "error + ctxs \<times> heap \<Rightarrow> error + (tlaval jsv \<times> tlastate) option list option" where
  "outcome r = (case r of
       Inl e \<Rightarrow> Inl e
     | Inr (None, h) \<Rightarrow> Inr None
     | Inr (Some rs, h) \<Rightarrow> Inr (Some (map (map_option (\<lambda>a. (val (h ! a), state (h ! a)))) rs)))"

text \<open>A returned cell that is a context whose value is a boolean.\<close>

definition boolBranch :: "heap \<Rightarrow> addr option \<Rightarrow> bool" where
  "boolBranch h r = (case r of None \<Rightarrow> False | Some a \<Rightarrow> isBoolValue (val (h ! a)))"


definition extendsState :: "tlastate \<Rightarrow> tlastate \<Rightarrow> bool" where
  "extendsState parent sub =
     (map fst sub = map fst parent \<and>
      list_all (\<lambda>k. getVarVal parent k = JNull \<or> getVarVal sub k \<noteq> JNull) (map fst parent))"


text \<open>
  A concrete hash for closed examples: an injective rendering of the hashed value.  The
  general statements hold for every \<^verbatim>\<open>hashSum\<close>.
\<close>

definition showHash :: hashfn where
  "showHash x = (case x of
       HNum i \<Rightarrow> ''n'' @ num_toString i
     | HBool b \<Rightarrow> (if b then ''bt'' else ''bf'')
     | HArr xs \<Rightarrow> ''['' @ concat (map (\<lambda>z. case z of None \<Rightarrow> ''u;'' | Some s \<Rightarrow> s @ '';'') xs) @ '']'')"

text \<open>
  Example inputs: the state \<open>x = 0\<close>, the context in which \<^verbatim>\<open>getNextStates\<close> evaluates
  from that state, the context in which \<^verbatim>\<open>getInitStates\<close> evaluates for the variable \<open>x\<close>,
  and a few expressions over \<open>x\<close>.
\<close>

definition ex_state0 :: tlastate where
  "ex_state0 = [(''x'', JVal (IntValue 0))]"

definition ex_next :: ctx where
  "ex_next = newContext (addPrimed ex_state0) [] []"

definition ex_init :: ctx where
  "ex_init = newContext [(''x'', JNull)] [] []"

definition ex_x :: node where
  "ex_x = IdentifierRef ''x''"

definition ex_xp :: node where
  "ex_xp = BoundPostfixPrime (IdentifierRef ''x'')"


text \<open>\<^verbatim>\<open>UNCHANGED x \/ x' = 5\<close>\<close>

definition ex_unchanged_or :: node where
  "ex_unchanged_or = BoundInfixOp (BoundPrefixOp Unchanged ex_x) Lor
                                  (BoundInfixOp ex_xp Eq (NatNumber ''5''))"

text \<open>\<^verbatim>\<open>x = 0 \/ x = 0\<close>\<close>

definition ex_redundant :: node where
  "ex_redundant = BoundInfixOp (BoundInfixOp ex_x Eq (NatNumber ''0'')) Lor
                               (BoundInfixOp ex_x Eq (NatNumber ''0''))"





text \<open>\<^verbatim>\<open>x' = 1 \/ TRUE\<close>, the disjunction list of \<^verbatim>\<open>x' = 1\<close> and \<^verbatim>\<open>x' = 2\<close>, and
  \<^verbatim>\<open>\E i \in {1, 2} : x' = i\<close>\<close>

definition ex_partial :: node where
  "ex_partial = BoundInfixOp (BoundInfixOp ex_xp Eq (NatNumber ''1'')) Lor (Boolean ''TRUE'')"




text \<open>\<^verbatim>\<open>x' = 5 \/ UNCHANGED x\<close>, and \<^verbatim>\<open>CHOOSE v \in {a, b} : TRUE\<close>\<close>

definition ex_or_unchanged :: node where
  "ex_or_unchanged = BoundInfixOp (BoundInfixOp ex_xp Eq (NatNumber ''5'')) Lor
                                  (BoundPrefixOp Unchanged ex_x)"

definition ex_choose :: "string \<Rightarrow> string \<Rightarrow> node" where
  "ex_choose a b = Choose ''v'' (FiniteSetLiteral [NatNumber a, NatNumber b]) (Boolean ''TRUE'')"

section \<open>Well-formed heaps\<close>

text \<open>
  All contexts of one evaluation carry states over the same list \<open>K\<close> of keys: the declared
  variables, and with them their primed copies while next states are computed.  In a
  well-formed state every variable that has a primed copy holds a value, as the current
  state does in \<^verbatim>\<open>getNextStates\<close>.
\<close>

definition wfKeys :: "string list \<Rightarrow> bool" where
  "wfKeys K = (distinct K \<and> list_all (\<lambda>k. \<not> endsWithPrime k \<or> butlast k \<in> set K) K)"

definition wfState :: "string list \<Rightarrow> tlastate \<Rightarrow> bool" where
  "wfState K st = (map fst st = K \<and>
     list_all (\<lambda>x. x @ [CHR 0x27] \<notin> set K \<or> getVarVal st x \<noteq> JNull) K)"

definition wfHeap :: "string list \<Rightarrow> heap \<Rightarrow> bool" where
  "wfHeap K h = list_all (\<lambda>cx. wfState K (state cx)) h"

text \<open>
  The evaluator only adds contexts to the heap and only assigns variables: a later heap
  \<open>h'\<close> has every cell of \<open>h\<close>, with a state that extends the one it had.  A reference is
  \<open>above\<close> a state when it points into the heap at a context whose state extends it.
\<close>

definition heapLe :: "heap \<Rightarrow> heap \<Rightarrow> bool" where
  "heapLe h h' = (length h \<le> length h' \<and>
     (\<forall>a<length h. extendsState (state (h ! a)) (state (h' ! a))))"

definition above :: "tlastate \<Rightarrow> heap \<Rightarrow> addr \<Rightarrow> bool" where
  "above s h a = (a < length h \<and> extendsState s (state (h ! a)))"

definition refsAbove :: "tlastate \<Rightarrow> addr option list \<Rightarrow> heap \<Rightarrow> bool" where
  "refsAbove s rs h = (\<forall>a. Some a \<in> set rs \<longrightarrow> above s h a)"


definition stable :: "(heap \<Rightarrow> bool) \<Rightarrow> bool" where
  "stable P = (\<forall>h h'. P h \<and> heapLe h h' \<longrightarrow> P h')"


section \<open>Properties\<close>

lemmas monad_defs = bnd_def ret_def throw_def lift_def deref_def alloc_def modify_def clone_def
  withVal_def withValAndState_def withBoundVar_def withPrimed_def ret1_def retVal_def
  firstVal_def soleVal_def asObj_def getValM_def evalVal_def

lemmas eval_defs = evalBoundInfix_def evalBoundPrefix_def evalIntOp_def evalMul_def evalLand_def
  evalLor_def evalIdentifierRef_def evalChoose_def evalFiniteSetLiteral_def assertInt_def
  getElems_def landBranch_def

subsection \<open>Negation and implication\<close>



subsection \<open>Equality: assignment or comparison\<close>



subsection \<open>Next states\<close>

lemma ctxGetVal_bool:
  "boolBranch h r \<Longrightarrow>
   ctxGetVal (map_option ((!) h) r) = Inr (PBool (val (h ! the r) = JVal (BoolValue True)))"
  by (auto simp: boolBranch_def ctxGetVal_def isBoolValue_def getVal_def
      split: option.splits jsv.splits tlaval.splits)

lemma readOut_no_error:
  "list_all (boolBranch h) rs \<Longrightarrow> \<not> list_ex (\<lambda>x. isl (ctxGetVal x)) (readOut h rs)"
  by (induction rs) (simp_all add: readOut_def ctxGetVal_bool)

lemma readOut_true:
  "list_all (boolBranch h) rs \<Longrightarrow>
   map the (filter (\<lambda>x. projr (ctxGetVal x) = PBool True) (readOut h rs))
     = filter (\<lambda>cx. val cx = JVal (BoolValue True)) (map (\<lambda>r. h ! the r) rs)"
  by (induction rs) (auto simp add: readOut_def ctxGetVal_bool boolBranch_def split: option.splits)

lemma readOut_truthy:
  "list_all (boolBranch h) rs \<Longrightarrow>
   map (\<lambda>x. state (the x)) (filter (\<lambda>x. truthy (projr (ctxGetVal x))) (readOut h rs))
     = map state (filter (\<lambda>cx. val cx = JVal (BoolValue True)) (map (\<lambda>r. h ! the r) rs))"
  by (induction rs)
    (auto simp add: readOut_def ctxGetVal_bool boolBranch_def truthy_def split: option.splits)

lemma deprime_unprimed: "list_all (\<lambda>(k, v). \<not> endsWithPrime k) u \<Longrightarrow> deprimeVars u = []"
  by (induction u) (auto simp: deprimeVars_def)

lemma deprime_primed: "deprimeVars (map (\<lambda>(k, v). (k @ [CHR 0x27], v)) t) = t"
  by (induction t) (auto simp: deprimeVars_def endsWithPrime_def)

lemma deprime_append: "deprimeVars (u @ w) = deprimeVars u @ deprimeVars w"
  by (simp add: deprimeVars_def)

text \<open>
  The state \<^verbatim>\<open>getNextStates\<close> starts from: the current state followed by one unassigned
  primed slot for each of its variables.
\<close>

lemma foldl_addPrimed:
  "distinct ks \<Longrightarrow> list_all (\<lambda>k. map_of t (k @ [CHR 0x27]) = None) ks \<Longrightarrow>
   foldl (\<lambda>t k. obj_set (k @ [CHR 0x27]) JNull t) t ks = t @ map (\<lambda>k. (k @ [CHR 0x27], JNull)) ks"
proof (induction ks arbitrary: t)
  case Nil
  then show ?case by simp
next
  case (Cons k ks)
  have "list_all (\<lambda>k'. map_of (t @ [(k @ [CHR 0x27], JNull)]) (k' @ [CHR 0x27]) = None) ks"
    using Cons.prems by (auto simp: list_all_iff map_add_def split: option.splits)
  then show ?case using Cons by (simp add: obj_set_def)
qed

lemma addPrimed_shape:
  assumes d: "distinct (map fst s)" and u: "list_all (\<lambda>(k, v). \<not> endsWithPrime k) s"
  shows "addPrimed s = s @ map (\<lambda>(k, v). (k @ [CHR 0x27], JNull)) s"
proof -
  have "list_all (\<lambda>k. map_of s (k @ [CHR 0x27]) = None) (map fst s)"
    using u by (fastforce simp: list_all_iff map_of_eq_None_iff endsWithPrime_def image_iff)
  from foldl_addPrimed[OF d this] show ?thesis
    by (simp add: addPrimed_def comp_def case_prod_beta)
qed

text \<open>
  Claim C3.  When the evaluation of the \<^verbatim>\<open>Next\<close> body from the state \<open>s\<close> returns the
  branches \<open>rs\<close>, each a context with a boolean value, \<^verbatim>\<open>getNextStates\<close> returns, without
  an error and in the order of \<open>rs\<close>, exactly the branches whose value is \<^verbatim>\<open>TRUE\<close> and in
  which the primed slot of every variable of \<open>s\<close> is assigned; a branch that is \<^verbatim>\<open>TRUE\<close>
  with an unassigned primed slot is left out.  \<^verbatim>\<open>deprimeVars\<close> on a state made of
  unprimed entries \<open>u\<close> followed by the entries of \<open>t\<close> under primed names is \<open>t\<close>: the
  unprimed entries are dropped and each key \<open>X'\<close> is renamed to \<open>X\<close>.
\<close>

theorem getNextStates_filters_and_deprime:
  "(evalExpr hs True fuel nextDef 0 [newContext (addPrimed s) ds cv] = Inr (Some rs, h) \<longrightarrow>
    list_all (boolBranch h) rs \<longrightarrow>
    getNextStates hs fuel nextDef s ds cv
      = Inr (filter (\<lambda>cx. val cx = JVal (BoolValue True) \<and> allPrimedAssigned (map fst s) cx)
               (map (\<lambda>r. h ! the r) rs)))
   \<and> (list_all (\<lambda>(k, v). \<not> endsWithPrime k) u \<longrightarrow>
        deprimeVars (u @ map (\<lambda>(k, v). (k @ [CHR 0x27], v)) t) = t)"
  apply (intro conjI impI)
  subgoal by (simp add: getNextStates_def readOut_no_error readOut_true conj_commute)
  subgoal by (simp add: deprime_append deprime_unprimed deprime_primed)
  done

theorem getNextStates_filters_and_deprime_witness:
  "outcome (evalExpr showHash True 3 ex_partial 0 [newContext (addPrimed ex_state0) [] []])
     = Inr (Some [Some (JVal (BoolValue True),
                        [(''x'', JVal (IntValue 0)), (''x'' @ [CHR 0x27], JVal (IntValue 1))]),
                  Some (JVal (BoolValue True),
                        [(''x'', JVal (IntValue 0)), (''x'' @ [CHR 0x27], JNull)])])
   \<and> map (\<lambda>cx. (val cx, state cx)) (projr (getNextStates showHash 3 ex_partial ex_state0 [] []))
     = [(JVal (BoolValue True),
         [(''x'', JVal (IntValue 0)), (''x'' @ [CHR 0x27], JVal (IntValue 1))])]
   \<and> deprimeVars [(''x'', JVal (IntValue 0)), (''x'' @ [CHR 0x27], JVal (IntValue 1))]
     = [(''x'', JVal (IntValue 1))]"
proof -
  define h where "h = snd (projr (evalExpr showHash True 3 ex_partial 0
                                     [newContext (addPrimed ex_state0) [] []]))"
  have e: "evalExpr showHash True 3 ex_partial 0 [newContext (addPrimed ex_state0) [] []]
             = Inr (Some [Some 3, Some 4], h)"
    unfolding h_def by code_simp
  have b: "list_all (boolBranch h) [Some 3, Some 4]"
    unfolding h_def by code_simp
  note N = getNextStates_filters_and_deprime[THEN conjunct1, rule_format, OF e b]
  have u: "list_all (\<lambda>(k, v). \<not> endsWithPrime k) [(''x'', JVal (IntValue 0))]"
    by code_simp
  note D = getNextStates_filters_and_deprime[THEN conjunct2, rule_format, OF u,
      of "[(''x'', JVal (IntValue 1))]"]
  have r1: "outcome (evalExpr showHash True 3 ex_partial 0 [newContext (addPrimed ex_state0) [] []])
     = Inr (Some [Some (JVal (BoolValue True),
                        [(''x'', JVal (IntValue 0)), (''x'' @ [CHR 0x27], JVal (IntValue 1))]),
                  Some (JVal (BoolValue True),
                        [(''x'', JVal (IntValue 0)), (''x'' @ [CHR 0x27], JNull)])])"
    by code_simp
  have r2: "map (\<lambda>cx. (val cx, state cx)) (projr (getNextStates showHash 3 ex_partial ex_state0 [] []))
     = [(JVal (BoolValue True),
         [(''x'', JVal (IntValue 0)), (''x'' @ [CHR 0x27], JVal (IntValue 1))])]"
    unfolding N h_def by code_simp
  have r3: "deprimeVars [(''x'', JVal (IntValue 0)), (''x'' @ [CHR 0x27], JVal (IntValue 1))]
     = [(''x'', JVal (IntValue 1))]"
    using D by simp
  from r1 r2 r3 show ?thesis by blast
qed

subsection \<open>Branch merging of disjunctive constructs\<close>





subsection \<open>An invariant of the evaluator\<close>

text \<open>
  On a well-formed heap every construct returns contexts whose states extend the state of
  the context it was given, and leaves a well-formed heap in which no variable has lost
  its assignment.  The proof follows the code: one triple for each operation on
  contexts, one for each \<^verbatim>\<open>eval...\<close> function, and an induction on the depth of the
  recursion.
\<close>

lemma ext_refl [simp]: "extendsState s s"
  by (simp add: extendsState_def list_all_iff)



lemma heapLe_refl [simp]: "heapLe h h"
  by (simp add: heapLe_def)







lemma refsAbove_append [simp]: "refsAbove s (xs @ ys) h = (refsAbove s xs h \<and> refsAbove s ys h)"
  by (auto simp: refsAbove_def)

lemma refsAbove_Nil [simp]: "refsAbove s [] h"
  by (simp add: refsAbove_def)

lemma refsAbove_Cons [simp]:
  "refsAbove s (r # rs) h = ((case r of None \<Rightarrow> True | Some a \<Rightarrow> above s h a) \<and> refsAbove s rs h)"
  by (auto simp: refsAbove_def split: option.splits)






lemma keys_withVarVal [simp]: "map fst (withVarVal st k v) = map fst st"
  by (induction st) (auto simp: withVarVal_def)





lemma stable_const [simp]: "stable (\<lambda>h. C)"
  by (simp add: stable_def)









































lemma flat_simps [simp]: "flat None = [None]" "flat (Some xs) = xs"
  by (simp_all add: flat_def)


















































text \<open>
  The heap on which \<^verbatim>\<open>getNextStates\<close> evaluates \<^verbatim>\<open>Next\<close> is well-formed when the current
  state has distinct unprimed variables that are all assigned.
\<close>

lemma next_heap_wf:
  assumes d: "distinct (map fst s)" and u: "list_all (\<lambda>(k, v). \<not> endsWithPrime k) s"
    and a: "list_all (\<lambda>(k, v). v \<noteq> JNull) s"
  shows "wfKeys (map fst (addPrimed s)) \<and> wfHeap (map fst (addPrimed s)) [newContext (addPrimed s) ds cv]"
proof -
  let ?p = "\<lambda>k. k @ [CHR 0x27]"
  have sh: "addPrimed s = s @ map (\<lambda>(k, v). (?p k, JNull)) s"
    by (rule addPrimed_shape[OF d u])
  have K: "map fst (addPrimed s) = map fst s @ map ?p (map fst s)"
    unfolding sh by (simp add: comp_def case_prod_beta)
  have np: "\<And>k. k \<in> set (map fst s) \<Longrightarrow> \<not> endsWithPrime k"
    using u by (auto simp: list_all_iff)
  have pp: "\<And>k. endsWithPrime (?p k)" by (simp add: endsWithPrime_def)
  have "distinct (map ?p (map fst s))"
    using d by (simp add: distinct_map inj_on_def del: map_map)
  moreover have "set (map fst s) \<inter> set (map ?p (map fst s)) = {}"
  proof -
    have "k \<notin> set (map ?p (map fst s))" if "k \<in> set (map fst s)" for k
    proof
      assume "k \<in> set (map ?p (map fst s))"
      then have "endsWithPrime k" by (auto simp: endsWithPrime_def)
      then show False using np[OF that] by simp
    qed
    then show ?thesis by blast
  qed
  ultimately have dK: "distinct (map fst s @ map ?p (map fst s))"
    using d by (simp only: distinct_append)
  have k: "wfKeys (map fst (addPrimed s))"
    unfolding K wfKeys_def list_all_iff
  proof (intro conjI ballI)
    show "distinct (map fst s @ map ?p (map fst s))" by (rule dK)
    fix k assume "k \<in> set (map fst s @ map ?p (map fst s))"
    then consider "k \<in> set (map fst s)" | j where "j \<in> set (map fst s)" and "k = ?p j"
      by (auto simp del: map_map)
    then show "\<not> endsWithPrime k \<or> butlast k \<in> set (map fst s @ map ?p (map fst s))"
    proof cases
      case 1
      then show ?thesis using np by simp
    next
      case 2
      then show ?thesis by simp
    qed
  qed
  have v: "getVarVal (addPrimed s) x \<noteq> JNull" if "x \<in> set (map fst s)" for x
  proof -
    from that obtain w where w: "map_of s x = Some w"
      by (metis map_of_eq_None_iff not_Some_eq set_map)
    then have "(x, w) \<in> set s" by (rule map_of_SomeD)
    then have "w \<noteq> JNull" using a by (auto simp: list_all_iff)
    then show ?thesis using w unfolding sh by (simp add: getVarVal_def map_add_def)
  qed
  have "wfState (map fst (addPrimed s)) (addPrimed s)"
    unfolding wfState_def
  proof (intro conjI)
    show "map fst (addPrimed s) = map fst (addPrimed s)" by simp
    show "list_all (\<lambda>x. x @ [CHR 0x27] \<notin> set (map fst (addPrimed s)) \<or> getVarVal (addPrimed s) x \<noteq> JNull)
            (map fst (addPrimed s))"
      unfolding list_all_iff
    proof
      fix x assume "x \<in> set (map fst (addPrimed s))"
      show "x @ [CHR 0x27] \<notin> set (map fst (addPrimed s)) \<or> getVarVal (addPrimed s) x \<noteq> JNull"
      proof (cases "x \<in> set (map fst s)")
        case True
        then show ?thesis using v by simp
      next
        case False
        have "?p x \<notin> set (map fst s)" using np[of "?p x"] pp[of x] by blast
        moreover have "?p x \<notin> set (map ?p (map fst s))" using False by auto
        ultimately show ?thesis unfolding K by simp
      qed
    qed
  qed
  then show ?thesis using k by (simp add: wfHeap_def newContext_def)
qed



subsection \<open>Initial states\<close>

text \<open>
  Claim C5, as the code has it.  \<^verbatim>\<open>computeInitStates\<close> returns one state for every branch
  of the \<^verbatim>\<open>Init\<close> evaluation whose value is \<^verbatim>\<open>TRUE\<close>, in the order of the branches; states
  are not compared with each other, so two branches that assign the same values give two
  equal states.
\<close>

theorem computeInitStates_keeps_every_true_branch:
  "map_of ds ''Init'' = Some initDef \<longrightarrow>
   evalExpr hs False fuel initDef 0 [newContext (foldl (\<lambda>s v. obj_set v JNull s) [] vars) ds cv]
     = Inr (Some rs, h) \<longrightarrow>
   list_all (boolBranch h) rs \<longrightarrow>
   computeInitStates hs fuel vars ds cv
     = Inr (map state (filter (\<lambda>cx. val cx = JVal (BoolValue True)) (map (\<lambda>r. h ! the r) rs)))"
  by (simp add: computeInitStates_def getInitStates_def readOut_no_error readOut_truthy)

text \<open>
  For \<^verbatim>\<open>Init == x = 0 \/ x = 0\<close> the returned list holds the state \<open>x = 0\<close> twice: the
  fingerprints of the returned states are not distinct.
\<close>

theorem computeInitStates_duplicates_counterexample:
  "computeInitStates showHash 3 [''x''] [(''Init'', ex_redundant)] []
     = Inr [[(''x'', JVal (IntValue 0))], [(''x'', JVal (IntValue 0))]]
   \<and> \<not> distinct (map (state_fingerprint showHash)
        (projr (computeInitStates showHash 3 [''x''] [(''Init'', ex_redundant)] [])))"
  by code_simp

theorem computeInitStates_keeps_every_true_branch_witness:
  "map_of [(''Init'', ex_redundant)] ''Init'' = Some ex_redundant
   \<and> outcome (evalExpr showHash False 3 ex_redundant 0
        [newContext (foldl (\<lambda>s v. obj_set v JNull s) [] [''x'']) [(''Init'', ex_redundant)] []])
     = Inr (Some [Some (JVal (BoolValue True), [(''x'', JVal (IntValue 0))]),
                  Some (JVal (BoolValue True), [(''x'', JVal (IntValue 0))])])
   \<and> computeInitStates showHash 3 [''x''] [(''Init'', ex_redundant)] []
     = Inr [[(''x'', JVal (IntValue 0))], [(''x'', JVal (IntValue 0))]]"
proof -
  define h where "h = snd (projr (evalExpr showHash False 3 ex_redundant 0
      [newContext (foldl (\<lambda>s v. obj_set v JNull s) [] [''x'']) [(''Init'', ex_redundant)] []]))"
  have i: "map_of [(''Init'', ex_redundant)] ''Init'' = Some ex_redundant"
    by simp
  have e: "evalExpr showHash False 3 ex_redundant 0
      [newContext (foldl (\<lambda>s v. obj_set v JNull s) [] [''x'']) [(''Init'', ex_redundant)] []]
      = Inr (Some [Some 3, Some 6], h)"
    unfolding h_def by code_simp
  have b: "list_all (boolBranch h) [Some 3, Some 6]"
    unfolding h_def by code_simp
  note T = computeInitStates_keeps_every_true_branch[rule_format, OF i e b]
  have r2: "outcome (evalExpr showHash False 3 ex_redundant 0
        [newContext (foldl (\<lambda>s v. obj_set v JNull s) [] [''x'']) [(''Init'', ex_redundant)] []])
     = Inr (Some [Some (JVal (BoolValue True), [(''x'', JVal (IntValue 0))]),
                  Some (JVal (BoolValue True), [(''x'', JVal (IntValue 0))])])"
    by code_simp
  have r3: "computeInitStates showHash 3 [''x''] [(''Init'', ex_redundant)] []
     = Inr [[(''x'', JVal (IntValue 0))], [(''x'', JVal (IntValue 0))]]"
    unfolding T h_def by code_simp
  from i r2 r3 show ?thesis by blast
qed

subsection \<open>Evaluations that differ from the specification\<close>

text \<open>
  Claim C4.  \<^verbatim>\<open>CHOOSE\<close> iterates over the elements of the set in the order in which the set
  stores them.  The sets \<^verbatim>\<open>{2, 1}\<close> and \<^verbatim>\<open>{1, 2}\<close> have the same fingerprint, for every
  \<^verbatim>\<open>hashSum\<close>, and \<^verbatim>\<open>CHOOSE v \in S : TRUE\<close> returns \<open>2\<close> for the first and \<open>1\<close> for the
  second: the result is not the first element of a fingerprint-sorted order.
\<close>

theorem choose_iterates_in_stored_order:
  "outcome (evalExpr hs ap (Suc (Suc (Suc 0))) (ex_choose ''2'' ''1'') 0 [newContext [] [] []])
     = Inr (Some [Some (JVal (IntValue 2), [])])
   \<and> outcome (evalExpr hs ap (Suc (Suc (Suc 0))) (ex_choose ''1'' ''2'') 0 [newContext [] [] []])
     = Inr (Some [Some (JVal (IntValue 1), [])])
   \<and> fingerprint hs (mkSet hs [IntValue 2, IntValue 1])
     = fingerprint hs (mkSet hs [IntValue 1, IntValue 2])"
  by (cases "hs (HNum 1) = hs (HNum 2)")
     (auto simp add: ex_choose_def outcome_def eval_defs monad_defs newContext_def mkSet_def
       uniqBy_def parseInt_def digit_val_def clone_ctx_def isVal_def theVal_def obj_set_def
       getVal_def truthy_def)

text \<open>
  Claim C6.  A reference to an identifier with no binding returns \<^verbatim>\<open>undefined\<close> and raises
  nothing; \<^verbatim>\<open>foo /\ TRUE\<close> then evaluates to the empty list of branches, and
  \<^verbatim>\<open>Init == foo /\ x = 1\<close> yields no initial state and no error.  \<^verbatim>\<open>TRUE * 3\<close>
  evaluates to the integer \<open>3\<close>.
\<close>

theorem unbound_identifier_and_mul_raise_nothing:
  "outcome (evalExpr hs ap (Suc 0) (IdentifierRef ''foo'') 0 [ex_init]) = Inr None
   \<and> outcome (evalExpr hs ap (Suc (Suc 0))
        (BoundInfixOp (IdentifierRef ''foo'') Land (Boolean ''TRUE'')) 0 [ex_init]) = Inr (Some [])
   \<and> computeInitStates hs (Suc (Suc (Suc 0))) [''x'']
        [(''Init'', BoundInfixOp (IdentifierRef ''foo'') Land
                      (BoundInfixOp (IdentifierRef ''x'') Eq (NatNumber ''1'')))] [] = Inr []
   \<and> outcome (evalExpr hs ap (Suc (Suc 0))
        (BoundInfixOp (Boolean ''TRUE'') Mul (NatNumber ''3'')) 0 [ex_init])
     = Inr (Some [Some (JVal (IntValue 3), [(''x'', JNull)])])"
  by (simp add: outcome_def eval_defs monad_defs ex_init_def newContext_def hasVar_def
      computeInitStates_def getInitStates_def obj_set_def readOut_def getVal_def js_mul_def
      parseInt_def digit_val_def clone_ctx_def)

text \<open>
  Claim C7.  \<^verbatim>\<open>evalUnchanged\<close> assigns to \<^verbatim>\<open>ctx.state\<close> of the context it was given: after
  \<^verbatim>\<open>UNCHANGED x\<close> is evaluated in the context at address \<open>0\<close>, that context holds \<open>x' = 0\<close>.
  A sibling disjunct evaluated afterwards from the same context sees the assignment:
  from the state \<open>x = 0\<close>, \<^verbatim>\<open>UNCHANGED x \/ x' = 5\<close> has the one successor \<open>x = 0\<close>, while
  \<^verbatim>\<open>x' = 5 \/ UNCHANGED x\<close> has the two successors \<open>x = 5\<close> and \<open>x = 0\<close>.
\<close>

theorem unchanged_mutates_caller_context:
  "map state (take 1 (snd (projr
      (evalExpr hs True (Suc (Suc 0)) (BoundPrefixOp Unchanged ex_x) 0 [ex_next]))))
     = [[(''x'', JVal (IntValue 0)), (''x'' @ [CHR 0x27], JVal (IntValue 0))]]
   \<and> state ex_next = [(''x'', JVal (IntValue 0)), (''x'' @ [CHR 0x27], JNull)]
   \<and> map (\<lambda>cx. deprimeVars (state cx))
        (projr (getNextStates showHash 3 ex_unchanged_or ex_state0 [] []))
     = [[(''x'', JVal (IntValue 0))]]
   \<and> map (\<lambda>cx. deprimeVars (state cx))
        (projr (getNextStates showHash 3 ex_or_unchanged ex_state0 [] []))
     = [[(''x'', JVal (IntValue 5))], [(''x'', JVal (IntValue 0))]]"
  apply (intro conjI)
  subgoal by (simp add: ex_x_def ex_next_def ex_state0_def addPrimed_def obj_set_def newContext_def
        evalBoundPrefix_def evalUnchanged_def unchangedVar_def monad_defs evalIdentifierRef_def
        hasVar_def getVarVal_def withVarVal_def clone_ctx_def)
  subgoal by code_simp
  subgoal by code_simp
  subgoal by code_simp
  done

text \<open>
  Claim C8.  The tuple \<^verbatim>\<open><<1, 2, 1>>\<close>, turned into a function and back, is the tuple
  \<^verbatim>\<open><<2, 1, 1>>\<close>: the reverse index of \<^verbatim>\<open>toTuple\<close> is keyed by the string of a value, so
  both occurrences of \<open>1\<close> get the index \<open>3\<close>.  The two tuples have different fingerprints
  (here under \<open>showHash\<close>).
\<close>

theorem tuple_roundtrip_duplicates:
  "toTuple (toFcnRcd [IntValue 1, IntValue 2, IntValue 1])
     = Inr (TupleValue [IntValue 2, IntValue 1, IntValue 1])
   \<and> fingerprint showHash (TupleValue [IntValue 2, IntValue 1, IntValue 1])
       \<noteq> fingerprint showHash (TupleValue [IntValue 1, IntValue 2, IntValue 1])"
  by code_simp

text \<open>
  Claim C9.  \<^verbatim>\<open>3..1\<close> evaluates to the set \<^verbatim>\<open>{3}\<close>: \<^verbatim>\<open>_.range(3, 2)\<close> counts down from \<open>3\<close>.
\<close>

theorem dots_descending_range:
  "outcome (evalExpr hs ap (Suc (Suc 0)) (BoundInfixOp (NatNumber ''3'') Dots2 (NatNumber ''1''))
              0 [cx])
     = Inr (Some [Some (JVal (SetValue [IntValue 3]), state cx)])"
  by (simp add: outcome_def eval_defs monad_defs dots2_def mkSet_def uniqBy_def lodash_range_def
      parseInt_def digit_val_def clone_ctx_def upto.simps)

end
